theory Spec2Isabelle
  imports Complex_Main
begin

section \<open>The stock quote handler\<close>

text \<open>
  The program is one Python function, \<^verbatim>\<open>main(req)\<close> in
  \<^verbatim>\<open>azure/modules/function_app/app/stock_quote/__init__.py\<close>: it reads a ticker
  symbol from the request, asks the quote provider (\<^verbatim>\<open>yf.Ticker(symbol).info\<close>) for its
  price and answers with a JSON document. The embedding follows the function line by line.
  What the function takes from outside its own text is made explicit:
  \<^item> the Python runtime's Unicode tables and float arithmetic are the fields of a
    \<open>runtime\<close> record (which characters \<^verbatim>\<open>str.isalpha\<close> accepts, what
    \<^verbatim>\<open>str.upper\<close> returns, and for a float its truth value, \<^verbatim>\<open>round(x, 2)\<close> and
    the text \<^verbatim>\<open>json.dumps\<close> writes for it); the float arithmetic of CPython, IEEE 754
    binary64, is defined further down and is what the property on rounding is about;
  \<^item> the provider and the clock are the fields of a \<open>world\<close> record;
  \<^item> an exception is a value: a step that can raise returns \<open>exn + 'a\<close>, and the
    \<^verbatim>\<open>try ... except Exception\<close> of the handler is a case distinction on that sum.
  A \<open>char\<close> stands for one code point of a Python \<^verbatim>\<open>str\<close>, so \<open>length\<close> is
  Python's \<^verbatim>\<open>len\<close>. The log lines the function writes are left out.
\<close>

subsection \<open>Python values\<close>

text \<open>
  The values a provider result can hold (it is decoded JSON), with the float type \<open>'f\<close>
  left open.
\<close>

datatype 'f pyval =
    PyNone
  | PyBool bool
  | PyInt int
  | PyFloat 'f
  | PyStr string
  | PyList "'f pyval list"
  | PyDict "(string \<times> 'f pyval) list"

text \<open>An instance of \<^verbatim>\<open>Exception\<close>, carried as its message.\<close>

datatype exn = Exception string

record 'f runtime =
  char_isalpha :: "char \<Rightarrow> bool"
  str_upper :: "string \<Rightarrow> string"
  float_bool :: "'f \<Rightarrow> bool"
  float_round2 :: "'f \<Rightarrow> 'f"
  float_repr :: "'f \<Rightarrow> string"

text \<open>\<^verbatim>\<open>s.isalpha()\<close>: at least one character, and every character alphabetic.\<close>

definition str_isalpha :: "'f runtime \<Rightarrow> string \<Rightarrow> bool" where
  "str_isalpha rt s = (s \<noteq> [] \<and> list_all (char_isalpha rt) s)"

text \<open>\<^verbatim>\<open>bool(v)\<close>, the test behind \<^verbatim>\<open>not v\<close> and \<^verbatim>\<open>a or b\<close>.\<close>

fun py_bool :: "'f runtime \<Rightarrow> 'f pyval \<Rightarrow> bool" where
  "py_bool rt PyNone = False"
| "py_bool rt (PyBool b) = b"
| "py_bool rt (PyInt i) = (i \<noteq> 0)"
| "py_bool rt (PyFloat x) = float_bool rt x"
| "py_bool rt (PyStr s) = (s \<noteq> [])"
| "py_bool rt (PyList xs) = (xs \<noteq> [])"
| "py_bool rt (PyDict kvs) = (kvs \<noteq> [])"

text \<open>\<^verbatim>\<open>a or b\<close>: the left operand when it is true, the right one otherwise.\<close>

definition py_or :: "'f runtime \<Rightarrow> 'f pyval \<Rightarrow> 'f pyval \<Rightarrow> 'f pyval" where
  "py_or rt a b = (if py_bool rt a then a else b)"

text \<open>
  \<^verbatim>\<open>round(v, 2)\<close>: an int rounds to itself, a bool to the int it stands for, a float
  to what the runtime computes, and a value of any other type raises \<^verbatim>\<open>TypeError\<close>.
\<close>

fun py_round2 :: "'f runtime \<Rightarrow> 'f pyval \<Rightarrow> exn + 'f pyval" where
  "py_round2 rt PyNone = Inl (Exception ''type NoneType doesn't define __round__ method'')"
| "py_round2 rt (PyBool b) = Inr (PyInt (if b then 1 else 0))"
| "py_round2 rt (PyInt i) = Inr (PyInt i)"
| "py_round2 rt (PyFloat x) = Inr (PyFloat (float_round2 rt x))"
| "py_round2 rt (PyStr s) = Inl (Exception ''type str doesn't define __round__ method'')"
| "py_round2 rt (PyList xs) = Inl (Exception ''type list doesn't define __round__ method'')"
| "py_round2 rt (PyDict kvs) = Inl (Exception ''type dict doesn't define __round__ method'')"

text \<open>\<^verbatim>\<open>d.get(k)\<close>: the value stored under the key, \<^verbatim>\<open>None\<close> when there is none.\<close>

definition dict_get :: "(string \<rightharpoonup> 'f pyval) \<Rightarrow> string \<Rightarrow> 'f pyval" where
  "dict_get d k = (case d k of None \<Rightarrow> PyNone | Some v \<Rightarrow> v)"

subsection \<open>Splitting a string\<close>

text \<open>
  \<^verbatim>\<open>s.split(sep)\<close> for a one-character separator: the pieces between the separators,
  in order; the list always has at least one piece.
\<close>

fun split_str :: "char \<Rightarrow> string \<Rightarrow> string list" where
  "split_str sep [] = [[]]"
| "split_str sep (c # cs) =
     (let parts = split_str sep cs
      in if c = sep then [] # parts else (c # hd parts) # tl parts)"

subsection \<open>json.dumps\<close>

definition hex_digit :: "nat \<Rightarrow> char" where
  "hex_digit n = ''0123456789abcdef'' ! (n mod 16)"

text \<open>
  One character inside a JSON string, as \<^verbatim>\<open>json.dumps\<close> writes it with its default
  \<^verbatim>\<open>ensure_ascii=True\<close>: the quote and the backslash are escaped, the control characters
  with a short escape use it, and everything else outside the range from space to tilde
  becomes a \<^verbatim>\<open>\u\<close> escape of four hexadecimal digits.
\<close>

definition json_escape_char :: "char \<Rightarrow> string" where
  "json_escape_char c =
     (let n = (of_char c :: nat) in
      if n = 0x22 then [CHR 0x5C, CHR 0x22]
      else if n = 0x5C then [CHR 0x5C, CHR 0x5C]
      else if n = 0x0A then [CHR 0x5C, CHR ''n'']
      else if n = 0x0D then [CHR 0x5C, CHR ''r'']
      else if n = 0x09 then [CHR 0x5C, CHR ''t'']
      else if n = 0x0C then [CHR 0x5C, CHR ''f'']
      else if n = 0x08 then [CHR 0x5C, CHR ''b'']
      else if 0x20 \<le> n \<and> n \<le> 0x7E then [c]
      else [CHR 0x5C, CHR ''u'', CHR ''0'', CHR ''0'', hex_digit (n div 16), hex_digit n])"

definition json_str :: "string \<Rightarrow> string" where
  "json_str s = [CHR 0x22] @ concat (map json_escape_char s) @ [CHR 0x22]"

fun show_nat :: "nat \<Rightarrow> string" where
  "show_nat n =
     (if n < 10 then [''0123456789'' ! n]
      else show_nat (n div 10) @ [''0123456789'' ! (n mod 10)])"

definition show_int :: "int \<Rightarrow> string" where
  "show_int i = (if i < 0 then ''-'' @ show_nat (nat (- i)) else show_nat (nat i))"

text \<open>\<^verbatim>\<open>sep.join(xs)\<close>.\<close>

fun join :: "string \<Rightarrow> string list \<Rightarrow> string" where
  "join sep [] = []"
| "join sep [x] = x"
| "join sep (x # y # ys) = x @ sep @ join sep (y # ys)"

text \<open>
  \<^verbatim>\<open>json.dumps(v)\<close> with the default separators \<^verbatim>\<open>', '\<close> and \<^verbatim>\<open>': '\<close>; a dict is
  written in the order of its items.
\<close>

primrec json_dumps :: "'f runtime \<Rightarrow> 'f pyval \<Rightarrow> string" where
  "json_dumps rt PyNone = ''null''"
| "json_dumps rt (PyBool b) = (if b then ''true'' else ''false'')"
| "json_dumps rt (PyInt i) = show_int i"
| "json_dumps rt (PyFloat x) = float_repr rt x"
| "json_dumps rt (PyStr s) = json_str s"
| "json_dumps rt (PyList xs) = ''['' @ join '', '' (map (json_dumps rt) xs) @ '']''"
| "json_dumps rt (PyDict kvs) =
     ''{'' @ join '', '' (map (\<lambda>kv. json_str (fst kv) @ '': '' @ snd kv)
                              (map (map_prod id (json_dumps rt)) kvs)) @ ''}''"

subsection \<open>Request, response, provider and clock\<close>

text \<open>The two attributes of \<^verbatim>\<open>func.HttpRequest\<close> that the handler reads.\<close>

record http_request =
  params :: "string \<rightharpoonup> string"
  url :: string

record http_response =
  body :: string
  status_code :: nat
  mimetype :: string

definition HttpResponse :: "string \<Rightarrow> nat \<Rightarrow> string \<Rightarrow> http_response" where
  "HttpResponse b sc mt = \<lparr>body = b, status_code = sc, mimetype = mt\<rparr>"

text \<open>
  \<open>ticker_info s\<close> is what \<^verbatim>\<open>yf.Ticker(s).info\<close> does: it returns a dict or raises.
  \<open>now_date\<close> is \<^verbatim>\<open>datetime.now().strftime("%Y-%m-%d")\<close> and \<open>now_timestamp\<close> is
  \<^verbatim>\<open>int(datetime.now().timestamp())\<close> at the moment of the call.
\<close>

record 'f world =
  ticker_info :: "string \<Rightarrow> exn + (string \<rightharpoonup> 'f pyval)"
  now_date :: string
  now_timestamp :: int

text \<open>What one call does: the symbols it asked the provider for, and its response.\<close>

record run =
  lookups :: "string list"
  response :: http_response

subsection \<open>The handler\<close>

text \<open>
  Lines 21 and 33, \<^verbatim>\<open>not symbol\<close>: true of \<^verbatim>\<open>None\<close> and of the empty string.
\<close>

definition not_symbol :: "string option \<Rightarrow> bool" where
  "not_symbol symbol = (case symbol of None \<Rightarrow> True | Some s \<Rightarrow> s = [])"

text \<open>
  Line 30, the test that the candidate looks like a stock symbol, and lines 23 to 31
  around it: the candidate taken from the URL. The index \<^verbatim>\<open>[0]\<close> of line 28 is
  in range because \<open>split_str\<close> never returns the empty list (lemma
  \<open>split_str_not_Nil\<close>).
\<close>

definition looks_like_symbol :: "'f runtime \<Rightarrow> string \<Rightarrow> bool" where
  "looks_like_symbol rt potential_symbol =
     (potential_symbol \<noteq> [] \<and> str_isalpha rt potential_symbol
      \<and> length potential_symbol \<le> 5)"

definition path_symbol :: "'f runtime \<Rightarrow> string \<Rightarrow> string option" where
  "path_symbol rt u =
     (let url_parts = split_str CHR ''/'' u in
      if length url_parts > 0 then
        let potential_symbol = last url_parts;
            potential_symbol = hd (split_str CHR ''?'' potential_symbol)
        in if looks_like_symbol rt potential_symbol then Some potential_symbol else None
      else None)"

text \<open>Lines 18 to 31: the value of \<^verbatim>\<open>symbol\<close> when line 33 is reached.\<close>

definition extract_symbol :: "'f runtime \<Rightarrow> http_request \<Rightarrow> string option" where
  "extract_symbol rt req =
     (let symbol = params req ''symbol'' in
      if not_symbol symbol then
        (case path_symbol rt (url req) of
           Some potential_symbol \<Rightarrow> Some potential_symbol
         | None \<Rightarrow> symbol)
      else symbol)"

definition error_body :: "'f runtime \<Rightarrow> string \<Rightarrow> string" where
  "error_body rt msg = json_dumps rt (PyDict [(''error'', PyStr msg)])"

text \<open>Line 48.\<close>

definition current_price :: "'f runtime \<Rightarrow> (string \<rightharpoonup> 'f pyval) \<Rightarrow> 'f pyval" where
  "current_price rt info =
     py_or rt (dict_get info ''currentPrice'') (dict_get info ''regularMarketPrice'')"

text \<open>
  Lines 17 to 75, the body of the \<^verbatim>\<open>try\<close>: it returns a response or raises, and
  either way it has asked the provider for the symbols in the first component.
\<close>

definition main_try :: "'f runtime \<Rightarrow> 'f world \<Rightarrow> http_request \<Rightarrow> string list \<times> (exn + http_response)" where
  "main_try rt w req =
     (let symbol = extract_symbol rt req in
      if not_symbol symbol then
        ([], Inr (HttpResponse
           (error_body rt ''Stock symbol parameter is required. Use ?symbol=AAPL or /stock_quote/AAPL'')
           400 ''application/json''))
      else
        let symbol = str_upper rt (case symbol of Some s \<Rightarrow> s | None \<Rightarrow> []) in
        (case ticker_info w symbol of
           Inl e \<Rightarrow> ([symbol], Inl e)
         | Inr info \<Rightarrow>
             (case current_price rt info of
                PyNone \<Rightarrow>
                  ([symbol], Inr (HttpResponse
                     (error_body rt (''Could not retrieve price for symbol '' @ symbol))
                     404 ''application/json''))
              | price \<Rightarrow>
                  (case py_round2 rt price of
                     Inl e \<Rightarrow> ([symbol], Inl e)
                   | Inr rounded \<Rightarrow>
                       ([symbol], Inr (HttpResponse
                          (json_dumps rt (PyDict
                             [(''date'', PyStr (now_date w)),
                              (''price'', rounded),
                              (''symbol'', PyStr symbol),
                              (''time'', PyInt (now_timestamp w))]))
                          200 ''application/json''))))))"

text \<open>Lines 16 and 77 to 83: the \<^verbatim>\<open>try\<close> with its \<^verbatim>\<open>except Exception\<close>.\<close>

definition main :: "'f runtime \<Rightarrow> 'f world \<Rightarrow> http_request \<Rightarrow> run" where
  "main rt w req =
     (case main_try rt w req of
        (asked, Inr r) \<Rightarrow> \<lparr>lookups = asked, response = r\<rparr>
      | (asked, Inl e) \<Rightarrow>
          \<lparr>lookups = asked,
           response = HttpResponse (error_body rt ''Internal server error occurred'')
                        500 ''application/json''\<rparr>)"

subsection \<open>The final path segment, in the words of the specification\<close>

text \<open>
  What follows the last \<^verbatim>\<open>/\<close> of the URL, cut before its first \<^verbatim>\<open>?\<close>. The handler
  computes it with two calls of \<^verbatim>\<open>split\<close>; lemma \<open>path_symbol_final_segment\<close> shows
  that the two agree.
\<close>

definition final_segment :: "string \<Rightarrow> string" where
  "final_segment u =
     takeWhile (\<lambda>c. c \<noteq> CHR ''?'') (rev (takeWhile (\<lambda>c. c \<noteq> CHR ''/'') (rev u)))"

subsection \<open>A runtime, a provider and a clock for worked examples\<close>

text \<open>
  The runtime on ASCII text: the letters are \<^verbatim>\<open>A\<close> to \<^verbatim>\<open>Z\<close> and \<^verbatim>\<open>a\<close> to
  \<^verbatim>\<open>z\<close>, and \<^verbatim>\<open>upper\<close> moves the second range onto the first. Its floats are the
  doubles that hold a whole number, given as that number: \<^verbatim>\<open>round(x, 2)\<close> leaves them
  as they are and \<^verbatim>\<open>json.dumps\<close> writes them with a trailing \<^verbatim>\<open>.0\<close>.
\<close>

definition ascii_isalpha :: "char \<Rightarrow> bool" where
  "ascii_isalpha c =
     (let n = (of_char c :: nat) in (65 \<le> n \<and> n \<le> 90) \<or> (97 \<le> n \<and> n \<le> 122))"

definition ascii_upper :: "string \<Rightarrow> string" where
  "ascii_upper s =
     map (\<lambda>c. let n = (of_char c :: nat) in
               if 97 \<le> n \<and> n \<le> 122 then ''ABCDEFGHIJKLMNOPQRSTUVWXYZ'' ! (n - 97)
               else c) s"

definition ascii_runtime :: "int runtime" where
  "ascii_runtime =
     \<lparr>char_isalpha = ascii_isalpha, str_upper = ascii_upper,
      float_bool = (\<lambda>x. x \<noteq> 0), float_round2 = (\<lambda>x. x),
      float_repr = (\<lambda>x. show_int x @ ''.0'')\<rparr>"

text \<open>
  A provider that knows a few symbols: one with both price fields, one with the fallback
  field only, two whose primary field is zero, one with a price that is text, one whose
  lookup raises; for any other symbol it returns an empty dict.
\<close>

definition sample_info :: "string \<Rightarrow> exn + (string \<rightharpoonup> int pyval)" where
  "sample_info symbol =
     (if symbol = ''AAPL'' then
        Inr [''currentPrice'' \<mapsto> PyInt 190, ''regularMarketPrice'' \<mapsto> PyInt 189]
      else if symbol = ''MSFT'' then Inr [''regularMarketPrice'' \<mapsto> PyInt 410]
      else if symbol = ''ZERO'' then
        Inr [''currentPrice'' \<mapsto> PyInt 0, ''regularMarketPrice'' \<mapsto> PyInt 5]
      else if symbol = ''GONE'' then Inr [''currentPrice'' \<mapsto> PyInt 0]
      else if symbol = ''FREE'' then Inr [''regularMarketPrice'' \<mapsto> PyInt 0]
      else if symbol = ''TEXT'' then Inr [''currentPrice'' \<mapsto> PyStr ''n/a'']
      else if symbol = ''BOOM'' then Inl (Exception ''connection refused'')
      else Inr Map.empty)"

definition sample_world :: "int world" where
  "sample_world =
     \<lparr>ticker_info = sample_info, now_date = ''2024-01-02'', now_timestamp = 1704196800\<rparr>"

text \<open>A request as the host builds it: the query parameters and the full URL.\<close>

definition request :: "(string \<times> string) list \<Rightarrow> string \<Rightarrow> http_request" where
  "request query u = \<lparr>params = map_of query, url = u\<rparr>"

subsection \<open>Floats: binary64 by exact value\<close>

text \<open>
  A finite Python float is an IEEE 754 binary64 number, and it is given here by the
  rational number it holds exactly: the float that Python writes \<^verbatim>\<open>142.3456\<close> is
  \<open>fl (1423456 / 10000)\<close>, the binary64 number nearest to that decimal. Infinities and NaN
  have no place in this type, negative zero is zero, and a number beyond the largest
  binary64 number is not turned into an infinity.
\<close>

text \<open>Rounding to the nearest integer, a tie going to the even one.\<close>

definition round_half_even :: "rat \<Rightarrow> int" where
  "round_half_even y =
     (let f = \<lfloor>y\<rfloor>; r = y - of_int f
      in if r < 1 / 2 then f else if 1 / 2 < r then f + 1 else if even f then f else f + 1)"

text \<open>
  \<open>ilog2 a\<close> is the exponent \<open>e\<close> with \<open>2 ^ e \<le> a < 2 ^ (e + 1)\<close>, for a positive \<open>a\<close>,
  read off the number of bits of \<open>\<lfloor>a\<rfloor>\<close>, or of \<open>\<lceil>1 / a\<rceil> - 1\<close> when \<open>a\<close> is below 1.
\<close>

fun bit_length :: "nat \<Rightarrow> nat" where
  "bit_length n = (if n = 0 then 0 else Suc (bit_length (n div 2)))"

definition pow2 :: "int \<Rightarrow> rat" where
  "pow2 e = (if 0 \<le> e then 2 ^ nat e else 1 / 2 ^ nat (- e))"

definition ilog2 :: "rat \<Rightarrow> int" where
  "ilog2 a =
     (if 1 \<le> a then int (bit_length (nat \<lfloor>a\<rfloor>)) - 1
      else - int (bit_length (nat (\<lceil>1 / a\<rceil> - 1))))"

text \<open>
  \<open>fl q\<close> is the binary64 value nearest to \<open>q\<close>, a tie going to the even significand:
  53 bits of significand above the least exponent, fewer below it (the subnormal numbers).
  This is what reading a decimal literal does, and what every correctly rounded operation
  ends with.
\<close>

definition fl :: "rat \<Rightarrow> rat" where
  "fl q =
     (if q = 0 then 0
      else let a = \<bar>q\<bar>;
               p = max (ilog2 a - 52) (- 1074);
               m = round_half_even (a / pow2 p)
           in sgn q * of_int m * pow2 p)"

text \<open>
  \<^verbatim>\<open>round(x, 2)\<close> of a float: CPython writes \<open>x\<close> in decimal with two digits after the
  point, correctly rounded from the exact value of \<open>x\<close> with a tie going to the even digit,
  and reads that decimal back as a float.
\<close>

definition b64_round2 :: "rat \<Rightarrow> rat" where
  "b64_round2 x = fl (of_int (round_half_even (x * 100)) / 100)"

text \<open>
  \<^verbatim>\<open>repr(x)\<close>, which \<^verbatim>\<open>json.dumps\<close> writes for a float: the shortest decimal that reads
  back as \<open>x\<close>, the one nearest to \<open>x\<close> when there are several, in positional notation
  when the decimal point falls within the range that \<^verbatim>\<open>repr\<close> allows and in exponent
  notation otherwise. \<open>shortest_decimal n x\<close> tries \<open>n\<close> digits, then more; 17 always do.
\<close>

fun decimal_length :: "nat \<Rightarrow> nat" where
  "decimal_length n = (if n = 0 then 0 else Suc (decimal_length (n div 10)))"

definition pow10 :: "int \<Rightarrow> rat" where
  "pow10 e = (if 0 \<le> e then 10 ^ nat e else 1 / 10 ^ nat (- e))"

definition ilog10 :: "rat \<Rightarrow> int" where
  "ilog10 a =
     (if 1 \<le> a then int (decimal_length (nat \<lfloor>a\<rfloor>)) - 1
      else - int (decimal_length (nat (\<lceil>1 / a\<rceil> - 1))))"

function shortest_decimal :: "nat \<Rightarrow> rat \<Rightarrow> int \<times> int" where
  "shortest_decimal n x =
     (let e = ilog10 x - int n + 1;
          lo = \<lfloor>x / pow10 e\<rfloor>;
          near = (if x / pow10 e - of_int lo \<le> 1 / 2 then lo else lo + 1);
          far = (if x / pow10 e - of_int lo \<le> 1 / 2 then lo + 1 else lo)
      in if 17 \<le> n \<or> fl (of_int near * pow10 e) = x then (near, e)
         else if fl (of_int far * pow10 e) = x then (far, e)
         else shortest_decimal (Suc n) x)"
  by pat_completeness auto
termination
  by (relation "measure (\<lambda>(n, x). 17 - n)") auto

definition strip_zeros :: "string \<Rightarrow> string" where
  "strip_zeros ds = rev (dropWhile (\<lambda>c. c = CHR ''0'') (rev ds))"

definition b64_repr_pos :: "rat \<Rightarrow> string" where
  "b64_repr_pos x =
     (let (c, e) = shortest_decimal 1 x;
          all = show_nat (nat c);
          decpt = int (length all) + e;
          ds = strip_zeros all
      in if decpt \<le> - 4 \<or> 16 < decpt then
           [hd ds] @ (if tl ds = [] then [] else ''.'' @ tl ds) @ ''e''
           @ (if decpt - 1 < 0 then ''-'' else ''+'')
           @ (if \<bar>decpt - 1\<bar> < 10 then ''0'' else []) @ show_nat (nat \<bar>decpt - 1\<bar>)
         else if decpt \<le> 0 then ''0.'' @ replicate (nat (- decpt)) CHR ''0'' @ ds
         else if int (length ds) \<le> decpt then
           ds @ replicate (nat (decpt - int (length ds))) CHR ''0'' @ ''.0''
         else take (nat decpt) ds @ ''.'' @ drop (nat decpt) ds)"

definition b64_repr :: "rat \<Rightarrow> string" where
  "b64_repr x =
     (if x = 0 then ''0.0'' else if x < 0 then ''-'' @ b64_repr_pos (- x) else b64_repr_pos x)"

text \<open>The floats that Python writes \<^verbatim>\<open>142.3456\<close> and \<^verbatim>\<open>142.35\<close>.\<close>

definition float_142_3456 :: rat where
  "float_142_3456 = fl (1423456 / 10000)"

definition float_142_35 :: rat where
  "float_142_35 = fl (14235 / 100)"

text \<open>
  The runtime with these floats, on ASCII text, and a provider that quotes every symbol at
  the float \<^verbatim>\<open>142.3456\<close>.
\<close>

definition binary64_runtime :: "rat runtime" where
  "binary64_runtime =
     \<lparr>char_isalpha = ascii_isalpha, str_upper = ascii_upper,
      float_bool = (\<lambda>x. x \<noteq> 0), float_round2 = b64_round2, float_repr = b64_repr\<rparr>"

definition quote_world :: "rat world" where
  "quote_world =
     \<lparr>ticker_info = (\<lambda>symbol. Inr [''currentPrice'' \<mapsto> PyFloat float_142_3456]),
      now_date = ''2024-01-02'', now_timestamp = 1704196800\<rparr>"

section \<open>Properties\<close>

declare show_nat.simps [simp del]

declare json_dumps.simps [simp del]

declare bit_length.simps [simp del]

declare decimal_length.simps [simp del]

declare shortest_decimal.simps [simp del]

subsection \<open>Splitting\<close>

lemma split_str_not_Nil: "split_str sep s \<noteq> []"
  by (induction s) (auto simp: Let_def)

lemma hd_split_str: "hd (split_str sep s) = takeWhile (\<lambda>c. c \<noteq> sep) s"
  by (induction s) (auto simp: Let_def)

lemma split_str_no_sep: "sep \<notin> set s \<Longrightarrow> split_str sep s = [s]"
  by (induction s) (auto simp: Let_def)

lemma tl_split_str_append: "tl (split_str sep (a @ sep # b)) \<noteq> []"
  by (induction a) (auto simp: split_str_not_Nil Let_def)

lemma last_split_str_append:
  "last (split_str sep (a @ sep # b)) = last (split_str sep b)"
  by (induction a) (auto simp: split_str_not_Nil tl_split_str_append last_tl Let_def)

text \<open>The last piece is what follows the last separator.\<close>

lemma last_split_str:
  "last (split_str sep s) = rev (takeWhile (\<lambda>c. c \<noteq> sep) (rev s))"
proof (cases "sep \<in> set s")
  case False
  then have h: "takeWhile (\<lambda>c. c \<noteq> sep) (rev s) = rev s"
    by auto
  show ?thesis unfolding h using False by (simp add: split_str_no_sep)
next
  case True
  then obtain a b where s: "s = a @ sep # b" and b: "sep \<notin> set b"
    by (meson split_list_last)
  have "takeWhile (\<lambda>c. c \<noteq> sep) (rev b @ sep # rev a) = rev b"
    using b by (simp add: takeWhile_append)
  then show ?thesis
    using b by (simp add: s last_split_str_append split_str_no_sep)
qed

lemma path_symbol_final_segment:
  "path_symbol rt u =
     (if looks_like_symbol rt (final_segment u) then Some (final_segment u) else None)"
  by (simp add: path_symbol_def final_segment_def Let_def split_str_not_Nil
      hd_split_str last_split_str)

subsection \<open>The handler, case by case\<close>

lemma required_body:
  \<open>error_body rt ''Stock symbol parameter is required. Use ?symbol=AAPL or /stock_quote/AAPL''
   = ''{"error": "Stock symbol parameter is required. Use ?symbol=AAPL or /stock_quote/AAPL"}''\<close>
  by (simp add: error_body_def json_dumps.simps json_str_def json_escape_char_def)

lemma internal_body:
  \<open>error_body rt ''Internal server error occurred''
   = ''{"error": "Internal server error occurred"}''\<close>
  by (simp add: error_body_def json_dumps.simps json_str_def json_escape_char_def)

lemma extract_symbol_query:
  "params req ''symbol'' = Some s \<Longrightarrow> s \<noteq> [] \<Longrightarrow> extract_symbol rt req = Some s"
  by (simp add: extract_symbol_def not_symbol_def)

lemma extract_symbol_path:
  "not_symbol (params req ''symbol'') \<Longrightarrow>
   extract_symbol rt req =
     (if looks_like_symbol rt (final_segment (url req)) then Some (final_segment (url req))
      else params req ''symbol'')"
  by (simp add: extract_symbol_def path_symbol_final_segment)

lemma looks_like_symbol_not_Nil: "looks_like_symbol rt p \<Longrightarrow> p \<noteq> []"
  by (simp add: looks_like_symbol_def)

text \<open>What the handler does once a symbol is resolved.\<close>

lemma main_resolved:
  assumes "extract_symbol rt req = Some s" and "s \<noteq> []"
  shows "main rt w req =
     (case ticker_info w (str_upper rt s) of
        Inl e \<Rightarrow>
          \<lparr>lookups = [str_upper rt s],
           response = HttpResponse (error_body rt ''Internal server error occurred'')
                        500 ''application/json''\<rparr>
      | Inr info \<Rightarrow>
          (case current_price rt info of
             PyNone \<Rightarrow>
               \<lparr>lookups = [str_upper rt s],
                response = HttpResponse
                  (error_body rt (''Could not retrieve price for symbol '' @ str_upper rt s))
                  404 ''application/json''\<rparr>
           | price \<Rightarrow>
               (case py_round2 rt price of
                  Inl e \<Rightarrow>
                    \<lparr>lookups = [str_upper rt s],
                     response = HttpResponse (error_body rt ''Internal server error occurred'')
                                  500 ''application/json''\<rparr>
                | Inr rounded \<Rightarrow>
                    \<lparr>lookups = [str_upper rt s],
                     response = HttpResponse
                       (json_dumps rt (PyDict
                          [(''date'', PyStr (now_date w)),
                           (''price'', rounded),
                           (''symbol'', PyStr (str_upper rt s)),
                           (''time'', PyInt (now_timestamp w))]))
                       200 ''application/json''\<rparr>)))"
  using assms
  by (simp add: main_def main_try_def not_symbol_def Let_def split: sum.splits pyval.splits)

lemma main_priced:
  assumes "extract_symbol rt req = Some s" and "s \<noteq> []"
    and "ticker_info w (str_upper rt s) = Inr info"
    and "current_price rt info \<noteq> PyNone"
  shows "main rt w req =
     (case py_round2 rt (current_price rt info) of
        Inl e \<Rightarrow>
          \<lparr>lookups = [str_upper rt s],
           response = HttpResponse (error_body rt ''Internal server error occurred'')
                        500 ''application/json''\<rparr>
      | Inr rounded \<Rightarrow>
          \<lparr>lookups = [str_upper rt s],
           response = HttpResponse
             (json_dumps rt (PyDict
                [(''date'', PyStr (now_date w)),
                 (''price'', rounded),
                 (''symbol'', PyStr (str_upper rt s)),
                 (''time'', PyInt (now_timestamp w))]))
             200 ''application/json''\<rparr>)"
  using assms(3,4)
  by (cases "current_price rt info") (simp_all add: main_resolved [OF assms(1,2)])

lemma main_not_found:
  assumes "extract_symbol rt req = Some s" and "s \<noteq> []"
    and "ticker_info w (str_upper rt s) = Inr info"
    and "current_price rt info = PyNone"
  shows "main rt w req =
     \<lparr>lookups = [str_upper rt s],
      response = HttpResponse
        (error_body rt (''Could not retrieve price for symbol '' @ str_upper rt s))
        404 ''application/json''\<rparr>"
  using assms(3,4) by (simp add: main_resolved [OF assms(1,2)])

lemma main_lookup_raises:
  assumes "extract_symbol rt req = Some s" and "s \<noteq> []"
    and "ticker_info w (str_upper rt s) = Inl e"
  shows "main rt w req =
     \<lparr>lookups = [str_upper rt s],
      response = HttpResponse (error_body rt ''Internal server error occurred'')
                   500 ''application/json''\<rparr>"
  using assms(3) by (simp add: main_resolved [OF assms(1,2)])

lemma lookups_resolved:
  assumes "extract_symbol rt req = Some s" and "s \<noteq> []"
  shows "lookups (main rt w req) = [str_upper rt s]"
  by (simp add: main_resolved [OF assms] split: sum.splits pyval.splits)

lemma main_extract_cong:
  "extract_symbol rt req = extract_symbol rt req' \<Longrightarrow> main rt w req = main rt w req'"
  by (simp add: main_def main_try_def)

lemma current_price_None:
  "(current_price rt info = PyNone) =
     (\<not> py_bool rt (dict_get info ''currentPrice'')
      \<and> dict_get info ''regularMarketPrice'' = PyNone)"
  by (auto simp: current_price_def py_or_def)

lemma py_round2_number:
  "py_round2 rt v = Inr p \<Longrightarrow> (\<exists>i. p = PyInt i) \<or> (\<exists>x. p = PyFloat x)"
  by (cases v) auto

lemma main_unresolved:
  assumes "not_symbol (extract_symbol rt req)"
  shows "main rt w req =
     \<lparr>lookups = [],
      response = HttpResponse
        (error_body rt ''Stock symbol parameter is required. Use ?symbol=AAPL or /stock_quote/AAPL'')
        400 ''application/json''\<rparr>"
  using assms by (simp add: main_def main_try_def Let_def)

subsection \<open>Evaluating the worked examples\<close>

lemmas handler_defs =
  main_def main_try_def extract_symbol_def path_symbol_def looks_like_symbol_def
  not_symbol_def str_isalpha_def current_price_def py_or_def dict_get_def
  HttpResponse_def error_body_def request_def Let_def

lemmas example_defs =
  ascii_runtime_def ascii_isalpha_def ascii_upper_def sample_world_def sample_info_def

lemmas json_defs =
  json_dumps.simps json_str_def json_escape_char_def show_int_def show_nat.simps

lemma run_empty_parameter:
  \<open>main ascii_runtime sample_world
     (request [(''symbol'', '''')] ''https://host/api/stock_quote/MSFT?symbol='')
   = \<lparr>lookups = [''MSFT''],
      response = \<lparr>body = ''{"date": "2024-01-02", "price": 410, "symbol": "MSFT", "time": 1704196800}'',
                  status_code = 200, mimetype = ''application/json''\<rparr>\<rparr>\<close>
  by (simp add: handler_defs example_defs json_defs)

lemma run_query_aapl:
  \<open>main ascii_runtime sample_world
     (request [(''symbol'', ''aapl'')] ''https://host/api/stock_quote?symbol=aapl'')
   = \<lparr>lookups = [''AAPL''],
      response = \<lparr>body = ''{"date": "2024-01-02", "price": 190, "symbol": "AAPL", "time": 1704196800}'',
                  status_code = 200, mimetype = ''application/json''\<rparr>\<rparr>\<close>
  by (simp add: handler_defs example_defs json_defs)

lemma run_path_too_long:
  \<open>main ascii_runtime sample_world (request [] ''https://host/api/stock_quote/GOOGLE'')
   = \<lparr>lookups = [],
      response = \<lparr>body = ''{"error": "Stock symbol parameter is required. Use ?symbol=AAPL or /stock_quote/AAPL"}'',
                  status_code = 400, mimetype = ''application/json''\<rparr>\<rparr>\<close>
  by (simp add: handler_defs example_defs json_defs)

lemma run_query_nflx:
  \<open>main ascii_runtime sample_world
     (request [(''symbol'', ''nflx'')] ''https://host/api/stock_quote?symbol=nflx'')
   = \<lparr>lookups = [''NFLX''],
      response = \<lparr>body = ''{"error": "Could not retrieve price for symbol NFLX"}'',
                  status_code = 404, mimetype = ''application/json''\<rparr>\<rparr>\<close>
  by (simp add: handler_defs example_defs json_defs)

lemma run_query_zero:
  \<open>main ascii_runtime sample_world
     (request [(''symbol'', ''ZERO'')] ''https://host/api/stock_quote?symbol=ZERO'')
   = \<lparr>lookups = [''ZERO''],
      response = \<lparr>body = ''{"date": "2024-01-02", "price": 5, "symbol": "ZERO", "time": 1704196800}'',
                  status_code = 200, mimetype = ''application/json''\<rparr>\<rparr>\<close>
  by (simp add: handler_defs example_defs json_defs)

lemma run_path_msft:
  \<open>main ascii_runtime sample_world (request [] ''https://host/api/stock_quote/MSFT'')
   = \<lparr>lookups = [''MSFT''],
      response = \<lparr>body = ''{"date": "2024-01-02", "price": 410, "symbol": "MSFT", "time": 1704196800}'',
                  status_code = 200, mimetype = ''application/json''\<rparr>\<rparr>\<close>
  by (simp add: handler_defs example_defs json_defs)

lemma run_path_gone:
  \<open>main ascii_runtime sample_world (request [] ''https://host/api/stock_quote/GONE'')
   = \<lparr>lookups = [''GONE''],
      response = \<lparr>body = ''{"error": "Could not retrieve price for symbol GONE"}'',
                  status_code = 404, mimetype = ''application/json''\<rparr>\<rparr>\<close>
  by (simp add: handler_defs example_defs json_defs)

lemma run_path_free:
  \<open>main ascii_runtime sample_world (request [] ''https://host/api/stock_quote/FREE'')
   = \<lparr>lookups = [''FREE''],
      response = \<lparr>body = ''{"date": "2024-01-02", "price": 0, "symbol": "FREE", "time": 1704196800}'',
                  status_code = 200, mimetype = ''application/json''\<rparr>\<rparr>\<close>
  by (simp add: handler_defs example_defs json_defs)

lemma run_path_boom:
  \<open>main ascii_runtime sample_world (request [] ''https://host/api/stock_quote/boom'')
   = \<lparr>lookups = [''BOOM''],
      response = \<lparr>body = ''{"error": "Internal server error occurred"}'',
                  status_code = 500, mimetype = ''application/json''\<rparr>\<rparr>\<close>
  by (simp add: handler_defs example_defs json_defs)

lemma run_path_text:
  \<open>main ascii_runtime sample_world (request [] ''https://host/api/stock_quote/text'')
   = \<lparr>lookups = [''TEXT''],
      response = \<lparr>body = ''{"error": "Internal server error occurred"}'',
                  status_code = 500, mimetype = ''application/json''\<rparr>\<rparr>\<close>
  by (simp add: handler_defs example_defs json_defs)

lemma run_query_unvalidated:
  \<open>main ascii_runtime sample_world
     (request [(''symbol'', ''brk.b-2024'')] ''https://host/api/stock_quote?symbol=brk.b-2024'')
   = \<lparr>lookups = [''BRK.B-2024''],
      response = \<lparr>body = ''{"error": "Could not retrieve price for symbol BRK.B-2024"}'',
                  status_code = 404, mimetype = ''application/json''\<rparr>\<rparr>\<close>
  by (simp add: handler_defs example_defs json_defs)

lemmas extract_defs =
  extract_symbol_def path_symbol_def looks_like_symbol_def not_symbol_def str_isalpha_def
  request_def Let_def

subsection \<open>Floats\<close>

text \<open>
  Rounding to two decimals moves a number by at most half a hundredth, before the result
  is read back as a float.
\<close>

lemma round_half_even_nearest: "\<bar>of_int (round_half_even y) - y\<bar> \<le> 1 / 2"
  unfolding round_half_even_def Let_def by (auto simp: abs_if) linarith+

lemma two_decimals_nearest: "\<bar>of_int (round_half_even (x * 100)) / 100 - x\<bar> \<le> 1 / 200"
proof -
  define k where "k = round_half_even (x * 100)"
  have "\<bar>of_int k - x * 100\<bar> \<le> 1 / 2"
    unfolding k_def by (rule round_half_even_nearest)
  then have "\<bar>of_int k / 100 - x\<bar> \<le> 1 / 200"
    by (auto simp only: abs_if split: if_splits)
  then show ?thesis
    by (simp only: k_def)
qed

lemma binary64_runtime_sel:
  "char_isalpha binary64_runtime = ascii_isalpha"
  "str_upper binary64_runtime = ascii_upper"
  "float_bool binary64_runtime = (\<lambda>x. x \<noteq> 0)"
  "float_round2 binary64_runtime = b64_round2"
  "float_repr binary64_runtime = b64_repr"
  by (simp_all add: binary64_runtime_def)

lemma float_142_3456_value: "float_142_3456 = 1252085138902011 / 8796093022208"
  by code_simp

lemma float_142_35_value: "float_142_35 = 5008495366845235 / 35184372088832"
  by code_simp

lemma float_142_3456_nonzero: "float_142_3456 \<noteq> 0"
  by code_simp

lemma b64_round2_142_3456: "b64_round2 float_142_3456 = float_142_35"
  by code_simp

text \<open>
  Three values to compare with Python: the float \<^verbatim>\<open>0.1\<close>; \<^verbatim>\<open>round(2.675, 2)\<close>, which is
  \<^verbatim>\<open>2.67\<close> because the float \<^verbatim>\<open>2.675\<close> lies below the decimal; and
  \<^verbatim>\<open>round(0.125, 2)\<close>, an exact tie, which goes to the even digit and is \<^verbatim>\<open>0.12\<close>.
\<close>

lemma fl_one_tenth: "fl (1 / 10) = 3602879701896397 / 36028797018963968"
  by code_simp

lemma b64_round2_2_675: "b64_round2 (fl (2675 / 1000)) = fl (267 / 100)"
  by code_simp

lemma b64_round2_tie: "b64_round2 (fl (125 / 1000)) = fl (12 / 100)"
  by code_simp

lemma float_142_35_positive: "0 < float_142_35"
  by code_simp

lemma shortest_decimal_142_35: "shortest_decimal (Suc 0) float_142_35 = (14235, - 2)"
  by code_simp

lemma b64_repr_142_35: "b64_repr float_142_35 = ''142.35''"
  using float_142_35_positive
  by (simp add: b64_repr_def b64_repr_pos_def shortest_decimal_142_35 strip_zeros_def
      show_nat.simps)

lemma run_quote:
  \<open>main binary64_runtime quote_world (request [] ''https://host/api/stock_quote/GOOG'')
   = \<lparr>lookups = [''GOOG''],
      response = \<lparr>body = ''{"date": "2024-01-02", "price": 142.35, "symbol": "GOOG", "time": 1704196800}'',
                  status_code = 200, mimetype = ''application/json''\<rparr>\<rparr>\<close>
  by (simp add: handler_defs json_defs binary64_runtime_sel quote_world_def ascii_isalpha_def
      ascii_upper_def float_142_3456_nonzero b64_round2_142_3456 b64_repr_142_35)

subsection \<open>Claims\<close>

text \<open>
  C1, as stated, fails: a \<^verbatim>\<open>symbol\<close> query parameter that is present but empty is not
  used. For the request \<^verbatim>\<open>/api/stock_quote/MSFT?symbol=\<close> the parameter is present, yet
  the handler takes \<^verbatim>\<open>MSFT\<close> from the path and asks the provider for it.
\<close>

theorem present_but_empty_parameter_not_used:
  "params (request [(''symbol'', '''')] ''https://host/api/stock_quote/MSFT?symbol='') ''symbol''
     = Some ''''
   \<and> extract_symbol ascii_runtime
         (request [(''symbol'', '''')] ''https://host/api/stock_quote/MSFT?symbol='')
       = Some ''MSFT''
   \<and> lookups (main ascii_runtime sample_world
         (request [(''symbol'', '''')] ''https://host/api/stock_quote/MSFT?symbol=''))
       = [''MSFT'']"
  by (simp add: handler_defs example_defs)

text \<open>
  C1, amended: symbol extraction is ordered, first match winning. When the \<^verbatim>\<open>symbol\<close>
  query parameter is present and not empty, the handler uses it; only when it is absent or
  empty does the handler turn to the final path segment of the URL (what follows the last
  \<^verbatim>\<open>/\<close>, cut before a \<^verbatim>\<open>?\<close>), which it uses when it looks like a symbol, and otherwise
  no symbol is found and the provider is not asked.
\<close>

theorem symbol_extraction_order:
  "(params req ''symbol'' = Some s \<and> s \<noteq> [] \<longrightarrow>
      extract_symbol rt req = Some s \<and> lookups (main rt w req) = [str_upper rt s])
   \<and> (not_symbol (params req ''symbol'') \<and> looks_like_symbol rt (final_segment (url req)) \<longrightarrow>
      extract_symbol rt req = Some (final_segment (url req))
      \<and> lookups (main rt w req) = [str_upper rt (final_segment (url req))])
   \<and> (not_symbol (params req ''symbol'') \<and> \<not> looks_like_symbol rt (final_segment (url req)) \<longrightarrow>
      not_symbol (extract_symbol rt req) \<and> lookups (main rt w req) = [])"
proof (intro conjI impI)
  assume a: "params req ''symbol'' = Some s \<and> s \<noteq> []"
  then show e: "extract_symbol rt req = Some s"
    by (simp add: extract_symbol_query)
  from a e show "lookups (main rt w req) = [str_upper rt s]"
    by (simp add: main_resolved split: sum.splits pyval.splits)
next
  assume a: "not_symbol (params req ''symbol'') \<and> looks_like_symbol rt (final_segment (url req))"
  then show e: "extract_symbol rt req = Some (final_segment (url req))"
    by (simp add: extract_symbol_path)
  from a have "final_segment (url req) \<noteq> []"
    by (auto dest: looks_like_symbol_not_Nil)
  with e show "lookups (main rt w req) = [str_upper rt (final_segment (url req))]"
    by (simp add: main_resolved split: sum.splits pyval.splits)
next
  assume a: "not_symbol (params req ''symbol'') \<and> \<not> looks_like_symbol rt (final_segment (url req))"
  then show e: "not_symbol (extract_symbol rt req)"
    by (simp add: extract_symbol_path)
  then show "lookups (main rt w req) = []"
    by (simp add: main_unresolved)
qed

text \<open>
  The three cases at concrete requests: a query parameter that wins over a usable path
  segment, a path segment used when the parameter is absent or empty, and no symbol at all.
\<close>

theorem symbol_extraction_order_witness:
  "extract_symbol ascii_runtime
      (request [(''symbol'', ''aapl'')] ''https://host/api/stock_quote/MSFT?symbol=aapl'')
     = Some ''aapl''
   \<and> lookups (main ascii_runtime sample_world
      (request [(''symbol'', ''aapl'')] ''https://host/api/stock_quote/MSFT?symbol=aapl''))
     = [''AAPL'']
   \<and> extract_symbol ascii_runtime (request [] ''https://host/api/stock_quote/MSFT'')
     = Some ''MSFT''
   \<and> lookups (main ascii_runtime sample_world
      (request [(''symbol'', '''')] ''https://host/api/stock_quote/MSFT?symbol=''))
     = [''MSFT'']
   \<and> lookups (main ascii_runtime sample_world (request [] ''https://host/api/stock_quote/GOOGLE''))
     = []"
proof -
  have seg: "final_segment ''https://host/api/stock_quote/MSFT'' = ''MSFT''"
    "final_segment ''https://host/api/stock_quote/MSFT?symbol='' = ''MSFT''"
    "final_segment ''https://host/api/stock_quote/GOOGLE'' = ''GOOGLE''"
    by (simp_all add: final_segment_def)
  note t = symbol_extraction_order [where rt = ascii_runtime and w = sample_world]
  show ?thesis
    using
      t [of "request [(''symbol'', ''aapl'')] ''https://host/api/stock_quote/MSFT?symbol=aapl''"
            "''aapl''"]
      t [of "request [] ''https://host/api/stock_quote/MSFT''" "''x''"]
      t [of "request [(''symbol'', '''')] ''https://host/api/stock_quote/MSFT?symbol=''" "''x''"]
      t [of "request [] ''https://host/api/stock_quote/GOOGLE''" "''x''"]
    by (simp add: seg request_def not_symbol_def looks_like_symbol_def str_isalpha_def
        ascii_runtime_def ascii_isalpha_def ascii_upper_def)
qed

text \<open>
  C2: when no query parameter is present, the candidate final path segment is accepted as
  the symbol if and only if it is non-empty, purely alphabetic and at most 5 characters
  long; and whenever neither the query parameter nor the path segment yields a symbol, the
  handler asks the provider for nothing and answers 400 with exactly the documented body.
\<close>

theorem path_candidate_accepted_or_bad_request:
  \<open>(params req ''symbol'' = None \<longrightarrow>
      (extract_symbol rt req = Some c) =
        (c = final_segment (url req) \<and> c \<noteq> [] \<and> list_all (char_isalpha rt) c \<and> length c \<le> 5))
   \<and> (not_symbol (params req ''symbol'')
        \<and> \<not> (final_segment (url req) \<noteq> [] \<and> list_all (char_isalpha rt) (final_segment (url req))
               \<and> length (final_segment (url req)) \<le> 5) \<longrightarrow>
      main rt w req =
        \<lparr>lookups = [],
         response = \<lparr>body = ''{"error": "Stock symbol parameter is required. Use ?symbol=AAPL or /stock_quote/AAPL"}'',
                     status_code = 400, mimetype = ''application/json''\<rparr>\<rparr>)\<close>
proof (intro conjI impI)
  assume "params req ''symbol'' = None"
  then have "extract_symbol rt req =
      (if looks_like_symbol rt (final_segment (url req)) then Some (final_segment (url req))
       else None)"
    by (simp add: extract_symbol_path not_symbol_def)
  then show "(extract_symbol rt req = Some c) =
      (c = final_segment (url req) \<and> c \<noteq> [] \<and> list_all (char_isalpha rt) c \<and> length c \<le> 5)"
    by (auto simp: looks_like_symbol_def str_isalpha_def)
next
  assume a: "not_symbol (params req ''symbol'')
    \<and> \<not> (final_segment (url req) \<noteq> [] \<and> list_all (char_isalpha rt) (final_segment (url req))
           \<and> length (final_segment (url req)) \<le> 5)"
  then have "\<not> looks_like_symbol rt (final_segment (url req))"
    by (auto simp: looks_like_symbol_def str_isalpha_def)
  with a have "not_symbol (extract_symbol rt req)"
    by (simp add: extract_symbol_path)
  then show \<open>main rt w req =
        \<lparr>lookups = [],
         response = \<lparr>body = ''{"error": "Stock symbol parameter is required. Use ?symbol=AAPL or /stock_quote/AAPL"}'',
                     status_code = 400, mimetype = ''application/json''\<rparr>\<rparr>\<close>
    by (simp only: main_unresolved required_body HttpResponse_def)
qed

text \<open>
  A path segment that is accepted, one that is too long and one with a digit, and the 400
  response for a request without a usable parameter or path segment.
\<close>

theorem path_candidate_accepted_or_bad_request_witness:
  \<open>extract_symbol ascii_runtime (request [] ''https://host/api/stock_quote/MSFT'') = Some ''MSFT''
   \<and> extract_symbol ascii_runtime (request [] ''https://host/api/stock_quote/GOOGLE'') \<noteq> Some ''GOOGLE''
   \<and> extract_symbol ascii_runtime (request [] ''https://host/api/stock_quote/BRK1'') \<noteq> Some ''BRK1''
   \<and> response (main ascii_runtime sample_world (request [] ''https://host/api/stock_quote/GOOGLE''))
     = \<lparr>body = ''{"error": "Stock symbol parameter is required. Use ?symbol=AAPL or /stock_quote/AAPL"}'',
        status_code = 400, mimetype = ''application/json''\<rparr>
   \<and> response (main ascii_runtime sample_world (request [(''symbol'', '''')] ''https://host/api/stock_quote/BRK1?symbol=''))
     = \<lparr>body = ''{"error": "Stock symbol parameter is required. Use ?symbol=AAPL or /stock_quote/AAPL"}'',
        status_code = 400, mimetype = ''application/json''\<rparr>\<close>
proof -
  have seg: "final_segment ''https://host/api/stock_quote/MSFT'' = ''MSFT''"
    "final_segment ''https://host/api/stock_quote/GOOGLE'' = ''GOOGLE''"
    "final_segment ''https://host/api/stock_quote/BRK1'' = ''BRK1''"
    "final_segment ''https://host/api/stock_quote/BRK1?symbol='' = ''BRK1''"
    by (simp_all add: final_segment_def)
  note t = path_candidate_accepted_or_bad_request [where rt = ascii_runtime and w = sample_world]
  show ?thesis
    using
      t [of "request [] ''https://host/api/stock_quote/MSFT''" "''MSFT''"]
      t [of "request [] ''https://host/api/stock_quote/GOOGLE''" "''GOOGLE''"]
      t [of "request [] ''https://host/api/stock_quote/BRK1''" "''BRK1''"]
      t [of "request [(''symbol'', '''')] ''https://host/api/stock_quote/BRK1?symbol=''" "''x''"]
    by (simp add: seg request_def not_symbol_def ascii_runtime_def ascii_isalpha_def)
qed

text \<open>
  C3: a resolved symbol is uppercased before the provider lookup and before it is echoed
  back. The provider is asked for the uppercased symbol, the \<^verbatim>\<open>symbol\<close> field of a 200
  response holds it, and the message of a 404 response ends with it.
\<close>

theorem symbol_uppercased:
  assumes "extract_symbol rt req = Some s" and "s \<noteq> []"
  shows "lookups (main rt w req) = [str_upper rt s]
    \<and> (status_code (response (main rt w req)) = 200 \<longrightarrow>
         (\<exists>price. body (response (main rt w req)) =
            json_dumps rt (PyDict
              [(''date'', PyStr (now_date w)),
               (''price'', price),
               (''symbol'', PyStr (str_upper rt s)),
               (''time'', PyInt (now_timestamp w))])))
    \<and> (status_code (response (main rt w req)) = 404 \<longrightarrow>
         body (response (main rt w req)) =
           error_body rt (''Could not retrieve price for symbol '' @ str_upper rt s))"
proof (cases "ticker_info w (str_upper rt s)")
  case (Inl e)
  then show ?thesis
    by (simp add: main_lookup_raises [OF assms] HttpResponse_def)
next
  case (Inr info)
  show ?thesis
  proof (cases "current_price rt info = PyNone")
    case True
    with Inr show ?thesis
      by (simp add: main_not_found [OF assms] HttpResponse_def)
  next
    case False
    with Inr show ?thesis
      by (auto simp: main_priced [OF assms] HttpResponse_def split: sum.splits)
  qed
qed

text \<open>
  The request \<^verbatim>\<open>?symbol=aapl\<close> is answered with the symbol \<^verbatim>\<open>AAPL\<close>, and
  \<^verbatim>\<open>?symbol=nflx\<close>, for which the provider has no price, with a message naming
  \<^verbatim>\<open>NFLX\<close>.
\<close>

theorem symbol_uppercased_witness:
  \<open>extract_symbol ascii_runtime
      (request [(''symbol'', ''aapl'')] ''https://host/api/stock_quote?symbol=aapl'')
     = Some ''aapl''
   \<and> main ascii_runtime sample_world
      (request [(''symbol'', ''aapl'')] ''https://host/api/stock_quote?symbol=aapl'')
     = \<lparr>lookups = [''AAPL''],
        response = \<lparr>body = ''{"date": "2024-01-02", "price": 190, "symbol": "AAPL", "time": 1704196800}'',
                    status_code = 200, mimetype = ''application/json''\<rparr>\<rparr>
   \<and> main ascii_runtime sample_world
      (request [(''symbol'', ''nflx'')] ''https://host/api/stock_quote?symbol=nflx'')
     = \<lparr>lookups = [''NFLX''],
        response = \<lparr>body = ''{"error": "Could not retrieve price for symbol NFLX"}'',
                    status_code = 404, mimetype = ''application/json''\<rparr>\<rparr>\<close>
proof -
  have a: "extract_symbol ascii_runtime
      (request [(''symbol'', ''aapl'')] ''https://host/api/stock_quote?symbol=aapl'')
     = Some ''aapl''"
    by (simp add: extract_defs)
  have n: "extract_symbol ascii_runtime
      (request [(''symbol'', ''nflx'')] ''https://host/api/stock_quote?symbol=nflx'')
     = Some ''nflx''"
    by (simp add: extract_defs)
  show ?thesis
    using symbol_uppercased [OF a, of sample_world] symbol_uppercased [OF n, of sample_world]
    by (simp add: a run_query_aapl run_query_nflx)
qed

text \<open>
  C4: the code departs from the claim. Line 48 joins the two fields with Python's
  \<^verbatim>\<open>or\<close>, which passes over a left operand that is present but zero, whereas line 50
  takes only \<^verbatim>\<open>None\<close> for a missing price. For a provider result with
  \<^verbatim>\<open>currentPrice\<close> 0 and \<^verbatim>\<open>regularMarketPrice\<close> 5 the price in the response is 5, the
  fallback, although the primary field is present.
\<close>

theorem zero_primary_price_passed_over:
  \<open>sample_info ''ZERO''
     = Inr [''currentPrice'' \<mapsto> PyInt 0, ''regularMarketPrice'' \<mapsto> PyInt 5]
   \<and> main ascii_runtime sample_world
      (request [(''symbol'', ''ZERO'')] ''https://host/api/stock_quote?symbol=ZERO'')
     = \<lparr>lookups = [''ZERO''],
        response = \<lparr>body = ''{"date": "2024-01-02", "price": 5, "symbol": "ZERO", "time": 1704196800}'',
                    status_code = 200, mimetype = ''application/json''\<rparr>\<rparr>\<close>
  by (simp add: run_query_zero) (simp add: sample_info_def)

text \<open>
  C5: the code departs from the claim, by the same \<^verbatim>\<open>or\<close> of line 48 as in C4. With
  \<^verbatim>\<open>currentPrice\<close> 0 and no fallback field the handler answers 404 although the primary
  field is there and holds a price. That 0 is a price for the handler shows in the
  mirrored result, \<^verbatim>\<open>regularMarketPrice\<close> 0 and no primary field, which it answers with
  200 and the price 0.
\<close>

theorem zero_primary_price_not_found:
  \<open>sample_info ''GONE'' = Inr [''currentPrice'' \<mapsto> PyInt 0]
   \<and> main ascii_runtime sample_world (request [] ''https://host/api/stock_quote/GONE'')
     = \<lparr>lookups = [''GONE''],
        response = \<lparr>body = ''{"error": "Could not retrieve price for symbol GONE"}'',
                    status_code = 404, mimetype = ''application/json''\<rparr>\<rparr>
   \<and> sample_info ''FREE'' = Inr [''regularMarketPrice'' \<mapsto> PyInt 0]
   \<and> main ascii_runtime sample_world (request [] ''https://host/api/stock_quote/FREE'')
     = \<lparr>lookups = [''FREE''],
        response = \<lparr>body = ''{"date": "2024-01-02", "price": 0, "symbol": "FREE", "time": 1704196800}'',
                    status_code = 200, mimetype = ''application/json''\<rparr>\<rparr>\<close>
  by (simp add: run_path_gone run_path_free) (simp add: sample_info_def)

text \<open>
  C6: when the provider lookup raises, or the rounding of the price does (the one step of
  formatting the response that can), the handler catches the exception and answers 500
  with exactly the body \<^verbatim>\<open>{"error": "Internal server error occurred"}\<close>. The response
  is the same whatever the exception is, so nothing of it reaches the body.
\<close>

theorem exception_becomes_500:
  assumes "extract_symbol rt req = Some s" and "s \<noteq> []"
  shows \<open>(ticker_info w (str_upper rt s) = Inl e \<longrightarrow>
            response (main rt w req) =
              \<lparr>body = ''{"error": "Internal server error occurred"}'',
               status_code = 500, mimetype = ''application/json''\<rparr>)
       \<and> (ticker_info w (str_upper rt s) = Inr info \<and> current_price rt info \<noteq> PyNone
            \<and> py_round2 rt (current_price rt info) = Inl e' \<longrightarrow>
            response (main rt w req) =
              \<lparr>body = ''{"error": "Internal server error occurred"}'',
               status_code = 500, mimetype = ''application/json''\<rparr>)\<close>
proof (intro conjI impI)
  assume "ticker_info w (str_upper rt s) = Inl e"
  then show \<open>response (main rt w req) =
      \<lparr>body = ''{"error": "Internal server error occurred"}'',
       status_code = 500, mimetype = ''application/json''\<rparr>\<close>
    by (simp add: main_lookup_raises [OF assms] HttpResponse_def internal_body)
next
  assume "ticker_info w (str_upper rt s) = Inr info \<and> current_price rt info \<noteq> PyNone
    \<and> py_round2 rt (current_price rt info) = Inl e'"
  then show \<open>response (main rt w req) =
      \<lparr>body = ''{"error": "Internal server error occurred"}'',
       status_code = 500, mimetype = ''application/json''\<rparr>\<close>
    by (simp add: main_priced [OF assms] HttpResponse_def internal_body)
qed

text \<open>A lookup that raises, and a price that is text and cannot be rounded.\<close>

theorem exception_becomes_500_witness:
  \<open>ticker_info sample_world (str_upper ascii_runtime ''boom'')
     = Inl (Exception ''connection refused'')
   \<and> response (main ascii_runtime sample_world (request [] ''https://host/api/stock_quote/boom''))
     = \<lparr>body = ''{"error": "Internal server error occurred"}'',
        status_code = 500, mimetype = ''application/json''\<rparr>
   \<and> ticker_info sample_world (str_upper ascii_runtime ''text'')
     = Inr [''currentPrice'' \<mapsto> PyStr ''n/a'']
   \<and> py_round2 ascii_runtime (current_price ascii_runtime [''currentPrice'' \<mapsto> PyStr ''n/a''])
     = Inl (Exception ''type str doesn't define __round__ method'')
   \<and> response (main ascii_runtime sample_world (request [] ''https://host/api/stock_quote/text''))
     = \<lparr>body = ''{"error": "Internal server error occurred"}'',
        status_code = 500, mimetype = ''application/json''\<rparr>\<close>
proof -
  have b: "extract_symbol ascii_runtime (request [] ''https://host/api/stock_quote/boom'')
     = Some ''boom''"
    by (simp add: extract_defs example_defs)
  have t: "extract_symbol ascii_runtime (request [] ''https://host/api/stock_quote/text'')
     = Some ''text''"
    by (simp add: extract_defs example_defs)
  have ne: "''boom'' \<noteq> []" "''text'' \<noteq> []"
    by simp_all
  show ?thesis
    using
      exception_becomes_500 [OF b ne(1), of sample_world "Exception ''connection refused''"]
      exception_becomes_500 [OF t ne(2), of sample_world _
        "[''currentPrice'' \<mapsto> PyStr ''n/a'']"
        "Exception ''type str doesn't define __round__ method''"]
    by (simp add: example_defs current_price_def py_or_def dict_get_def
        run_path_boom run_path_text)
qed

text \<open>
  C7: on a resolvable price the \<^verbatim>\<open>price\<close> field of the 200 response is the provider
  price rounded to 2 decimal places. For a float \<open>x\<close>, with the runtime's \<^verbatim>\<open>round\<close> being
  that of binary64, the field holds the float nearest to the decimal with two digits after
  the point that is nearest to \<open>x\<close> (a tie going to the even digit), and that decimal is
  within half a hundredth of \<open>x\<close>; an int is its own rounding. In particular the float
  \<^verbatim>\<open>142.3456\<close> yields the float \<^verbatim>\<open>142.35\<close>.
\<close>

theorem price_rounded_to_two_decimals:
  assumes "extract_symbol rt req = Some s" and "s \<noteq> []"
    and "ticker_info w (str_upper rt s) = Inr info"
    and "float_round2 rt = b64_round2"
  shows "(current_price rt info = PyFloat x \<longrightarrow>
            response (main rt w req) =
              HttpResponse
                (json_dumps rt (PyDict
                   [(''date'', PyStr (now_date w)),
                    (''price'', PyFloat (fl (of_int (round_half_even (x * 100)) / 100))),
                    (''symbol'', PyStr (str_upper rt s)),
                    (''time'', PyInt (now_timestamp w))]))
                200 ''application/json''
            \<and> \<bar>of_int (round_half_even (x * 100)) / 100 - x\<bar> \<le> 1 / 200)
       \<and> (current_price rt info = PyInt i \<longrightarrow>
            response (main rt w req) =
              HttpResponse
                (json_dumps rt (PyDict
                   [(''date'', PyStr (now_date w)),
                    (''price'', PyInt i),
                    (''symbol'', PyStr (str_upper rt s)),
                    (''time'', PyInt (now_timestamp w))]))
                200 ''application/json'')"
proof (intro conjI impI)
  assume c: "current_price rt info = PyFloat x"
  then have "current_price rt info \<noteq> PyNone"
    by simp
  from main_priced [OF assms(1-3) this] c assms(4)
  show "response (main rt w req) =
      HttpResponse
        (json_dumps rt (PyDict
           [(''date'', PyStr (now_date w)),
            (''price'', PyFloat (fl (of_int (round_half_even (x * 100)) / 100))),
            (''symbol'', PyStr (str_upper rt s)),
            (''time'', PyInt (now_timestamp w))]))
        200 ''application/json''"
    by (simp add: b64_round2_def)
  show "\<bar>of_int (round_half_even (x * 100)) / 100 - x\<bar> \<le> 1 / 200"
    by (rule two_decimals_nearest)
next
  assume c: "current_price rt info = PyInt i"
  then have "current_price rt info \<noteq> PyNone"
    by simp
  from main_priced [OF assms(1-3) this] c
  show "response (main rt w req) =
      HttpResponse
        (json_dumps rt (PyDict
           [(''date'', PyStr (now_date w)),
            (''price'', PyInt i),
            (''symbol'', PyStr (str_upper rt s)),
            (''time'', PyInt (now_timestamp w))]))
        200 ''application/json''"
    by simp
qed

text \<open>
  The provider quotes the float \<^verbatim>\<open>142.3456\<close>; the response carries \<^verbatim>\<open>142.35\<close>.
\<close>

theorem price_rounded_to_two_decimals_witness:
  \<open>float_round2 binary64_runtime = b64_round2
   \<and> current_price binary64_runtime [''currentPrice'' \<mapsto> PyFloat float_142_3456]
     = PyFloat float_142_3456
   \<and> fl (of_int (round_half_even (float_142_3456 * 100)) / 100) = float_142_35
   \<and> response (main binary64_runtime quote_world (request [] ''https://host/api/stock_quote/GOOG''))
     = \<lparr>body = ''{"date": "2024-01-02", "price": 142.35, "symbol": "GOOG", "time": 1704196800}'',
        status_code = 200, mimetype = ''application/json''\<rparr>\<close>
proof -
  have e: "extract_symbol binary64_runtime (request [] ''https://host/api/stock_quote/GOOG'')
     = Some ''GOOG''"
    by (simp add: extract_defs binary64_runtime_sel ascii_isalpha_def)
  have ne: "''GOOG'' \<noteq> []"
    by simp
  have i: "ticker_info quote_world (str_upper binary64_runtime ''GOOG'')
     = Inr [''currentPrice'' \<mapsto> PyFloat float_142_3456]"
    by (simp add: quote_world_def)
  have c: "current_price binary64_runtime [''currentPrice'' \<mapsto> PyFloat float_142_3456]
     = PyFloat float_142_3456"
    by (simp add: current_price_def py_or_def dict_get_def binary64_runtime_sel
        float_142_3456_nonzero)
  have r: "fl (of_int (round_half_even (float_142_3456 * 100)) / 100) = float_142_35"
    using b64_round2_142_3456 by (simp add: b64_round2_def)
  have m: \<open>response (main binary64_runtime quote_world
      (request [] ''https://host/api/stock_quote/GOOG''))
     = \<lparr>body = ''{"date": "2024-01-02", "price": 142.35, "symbol": "GOOG", "time": 1704196800}'',
        status_code = 200, mimetype = ''application/json''\<rparr>\<close>
    by (simp only: run_quote run.select_convs)
  note t = price_rounded_to_two_decimals [OF e ne i binary64_runtime_sel(4), of float_142_3456]
  from t binary64_runtime_sel(4) c r m show ?thesis
    by blast
qed

text \<open>
  C8: for every request, every provider and every clock, the response has a status code
  among 200, 400, 404 and 500 and the mimetype \<^verbatim>\<open>application/json\<close>, and its body is one
  of the two documented shapes: for 200 a JSON object with the keys \<^verbatim>\<open>date\<close>,
  \<^verbatim>\<open>price\<close>, \<^verbatim>\<open>symbol\<close> and \<^verbatim>\<open>time\<close> (a string, a number, a string and an integer),
  for the other codes a JSON object with the one key \<^verbatim>\<open>error\<close>. The handler is a
  total function of these three, so no exception leaves it.
\<close>

theorem response_shapes:
  "mimetype (response (main rt w req)) = ''application/json''
   \<and> status_code (response (main rt w req)) \<in> {200, 400, 404, 500}
   \<and> ((status_code (response (main rt w req)) = 200
        \<and> (\<exists>d p s t. body (response (main rt w req)) =
              json_dumps rt (PyDict
                [(''date'', PyStr d), (''price'', p), (''symbol'', PyStr s), (''time'', PyInt t)])
              \<and> ((\<exists>i. p = PyInt i) \<or> (\<exists>x. p = PyFloat x))))
       \<or> (status_code (response (main rt w req)) \<in> {400, 404, 500}
        \<and> (\<exists>msg. body (response (main rt w req)) =
              json_dumps rt (PyDict [(''error'', PyStr msg)]))))"
proof (cases "not_symbol (extract_symbol rt req)")
  case True
  then show ?thesis
    by (auto simp: main_unresolved HttpResponse_def error_body_def)
next
  case False
  then obtain s where s: "extract_symbol rt req = Some s" "s \<noteq> []"
    by (auto simp: not_symbol_def split: option.splits)
  show ?thesis
  proof (cases "ticker_info w (str_upper rt s)")
    case (Inl e)
    then show ?thesis
      by (auto simp: main_lookup_raises [OF s] HttpResponse_def error_body_def)
  next
    case (Inr info)
    show ?thesis
    proof (cases "current_price rt info = PyNone")
      case True
      with Inr show ?thesis
        by (auto simp: main_not_found [OF s] HttpResponse_def error_body_def)
    next
      case False
      show ?thesis
      proof (cases "py_round2 rt (current_price rt info)")
        case (Inl e)
        with Inr False show ?thesis
          by (auto simp: main_priced [OF s] HttpResponse_def error_body_def)
      next
        case r: (Inr p)
        from py_round2_number [OF r] Inr False r show ?thesis
          by (auto simp: main_priced [OF s] HttpResponse_def)
      qed
    qed
  qed
qed

text \<open>
  C9: a \<^verbatim>\<open>symbol\<close> query parameter that is present but empty is treated exactly like an
  absent one: the handler does what it does for the same request without the parameter.
  It falls through to the path segment, uses it when it looks like a symbol, and answers
  400 when it does not.
\<close>

theorem empty_parameter_like_absent:
  assumes "params req ''symbol'' = Some []"
  shows "main rt w req = main rt w (req\<lparr>params := (params req)(''symbol'' := None)\<rparr>)
    \<and> (looks_like_symbol rt (final_segment (url req)) \<longrightarrow>
         lookups (main rt w req) = [str_upper rt (final_segment (url req))])
    \<and> (\<not> looks_like_symbol rt (final_segment (url req)) \<longrightarrow>
         status_code (response (main rt w req)) = 400)"
proof -
  let ?req' = "req\<lparr>params := (params req)(''symbol'' := None)\<rparr>"
  have n: "not_symbol (params req ''symbol'')" "not_symbol (params ?req' ''symbol'')"
    using assms by (simp_all add: not_symbol_def)
  have e: "extract_symbol rt req =
      (if looks_like_symbol rt (final_segment (url req)) then Some (final_segment (url req))
       else Some [])"
    using extract_symbol_path [OF n(1), of rt] assms by simp
  have e': "extract_symbol rt ?req' =
      (if looks_like_symbol rt (final_segment (url req)) then Some (final_segment (url req))
       else None)"
    using extract_symbol_path [OF n(2), of rt] by simp
  show ?thesis
  proof (cases "looks_like_symbol rt (final_segment (url req))")
    case True
    then have "final_segment (url req) \<noteq> []"
      by (rule looks_like_symbol_not_Nil)
    with True e e' show ?thesis
      by (simp add: main_extract_cong [of rt req ?req'] lookups_resolved)
  next
    case False
    with e e' have "not_symbol (extract_symbol rt req)" "not_symbol (extract_symbol rt ?req')"
      by (simp_all add: not_symbol_def)
    with False show ?thesis
      by (simp add: main_unresolved HttpResponse_def)
  qed
qed

text \<open>
  The request \<^verbatim>\<open>/api/stock_quote/MSFT?symbol=\<close> is answered like
  \<^verbatim>\<open>/api/stock_quote/MSFT\<close>, with the quote of \<^verbatim>\<open>MSFT\<close>; the request
  \<^verbatim>\<open>/api/stock_quote?symbol=\<close> has no usable path segment and is answered with 400.
\<close>

theorem empty_parameter_like_absent_witness:
  "params (request [(''symbol'', '''')] ''https://host/api/stock_quote/MSFT?symbol='') ''symbol''
     = Some []
   \<and> main ascii_runtime sample_world
        (request [(''symbol'', '''')] ''https://host/api/stock_quote/MSFT?symbol='')
     = main ascii_runtime sample_world
        ((request [(''symbol'', '''')] ''https://host/api/stock_quote/MSFT?symbol='')
           \<lparr>params := (params (request [(''symbol'', '''')]
              ''https://host/api/stock_quote/MSFT?symbol=''))(''symbol'' := None)\<rparr>)
   \<and> lookups (main ascii_runtime sample_world
        (request [(''symbol'', '''')] ''https://host/api/stock_quote/MSFT?symbol=''))
     = [''MSFT'']
   \<and> status_code (response (main ascii_runtime sample_world
        (request [(''symbol'', '''')] ''https://host/api/stock_quote?symbol=''))) = 400"
proof -
  have p: "params (request [(''symbol'', '''')] ''https://host/api/stock_quote/MSFT?symbol='')
      ''symbol'' = Some []"
    "params (request [(''symbol'', '''')] ''https://host/api/stock_quote?symbol='')
      ''symbol'' = Some []"
    by (simp_all add: request_def)
  have seg: "final_segment (url (request [(''symbol'', '''')]
      ''https://host/api/stock_quote/MSFT?symbol='')) = ''MSFT''"
    "final_segment (url (request [(''symbol'', '''')]
      ''https://host/api/stock_quote?symbol='')) = ''stock_quote''"
    by (simp_all add: request_def final_segment_def)
  have l: "looks_like_symbol ascii_runtime ''MSFT''"
    "\<not> looks_like_symbol ascii_runtime ''stock_quote''"
    by (simp_all add: looks_like_symbol_def str_isalpha_def example_defs)
  have u: "str_upper ascii_runtime ''MSFT'' = ''MSFT''"
    by (simp add: example_defs)
  note t1 = empty_parameter_like_absent [OF p(1), of ascii_runtime sample_world, unfolded seg]
  note t2 = empty_parameter_like_absent [OF p(2), of ascii_runtime sample_world, unfolded seg]
  from t1 l(1) have "lookups (main ascii_runtime sample_world
      (request [(''symbol'', '''')] ''https://host/api/stock_quote/MSFT?symbol=''))
     = [str_upper ascii_runtime ''MSFT'']"
    by blast
  moreover from t2 l(2) have "status_code (response (main ascii_runtime sample_world
      (request [(''symbol'', '''')] ''https://host/api/stock_quote?symbol=''))) = 400"
    by blast
  moreover note p(1) conjunct1 [OF t1]
  ultimately show ?thesis
    unfolding u by blast
qed

text \<open>
  C10: the test of line 30 (alphabetic, at most 5 characters) applies to the path segment
  only. Every non-empty value of the \<^verbatim>\<open>symbol\<close> query parameter, whatever its characters
  and its length, is taken as the symbol, uppercased and passed to the provider lookup.
\<close>

theorem query_symbol_not_validated:
  assumes "params req ''symbol'' = Some s" and "s \<noteq> []"
  shows "extract_symbol rt req = Some s \<and> lookups (main rt w req) = [str_upper rt s]"
proof -
  have e: "extract_symbol rt req = Some s"
    using assms by (rule extract_symbol_query)
  then show ?thesis
    using assms(2) by (simp add: lookups_resolved)
qed

text \<open>A parameter of ten characters with a dot, a dash and digits.\<close>

theorem query_symbol_not_validated_witness:
  "params (request [(''symbol'', ''brk.b-2024'')]
      ''https://host/api/stock_quote?symbol=brk.b-2024'') ''symbol'' = Some ''brk.b-2024''
   \<and> \<not> looks_like_symbol ascii_runtime ''brk.b-2024''
   \<and> extract_symbol ascii_runtime (request [(''symbol'', ''brk.b-2024'')]
      ''https://host/api/stock_quote?symbol=brk.b-2024'') = Some ''brk.b-2024''
   \<and> lookups (main ascii_runtime sample_world (request [(''symbol'', ''brk.b-2024'')]
      ''https://host/api/stock_quote?symbol=brk.b-2024'')) = [''BRK.B-2024'']"
proof -
  have p: "params (request [(''symbol'', ''brk.b-2024'')]
      ''https://host/api/stock_quote?symbol=brk.b-2024'') ''symbol'' = Some ''brk.b-2024''"
    by (simp add: request_def)
  have ne: "''brk.b-2024'' \<noteq> []"
    by simp
  have u: "str_upper ascii_runtime ''brk.b-2024'' = ''BRK.B-2024''"
    by (simp add: example_defs)
  have l: "\<not> looks_like_symbol ascii_runtime ''brk.b-2024''"
    by (simp add: looks_like_symbol_def)
  show ?thesis
    using query_symbol_not_validated [OF p ne, of ascii_runtime sample_world]
    by (simp add: p u l)
qed

end
